theory Spec2Isabelle
  imports Main
begin

section \<open>Strings of the platform\<close>

text \<open>
  The routes use three string operations of JavaScript: \<^verbatim>\<open>slice\<close>, \<^verbatim>\<open>split\<close> with a
  one-character separator, and \<^verbatim>\<open>parseInt\<close>. A string is a list of characters.
\<close>

text \<open>
  \<^verbatim>\<open>s.slice(start, fin)\<close>: a negative index counts from the end, both indices are
  clamped to the string, and the result is empty when the bounds cross.
\<close>

definition js_slice :: "string \<Rightarrow> int \<Rightarrow> int \<Rightarrow> string" where
  "js_slice s start fin =
     (let len = int (length s);
          lo = (if start < 0 then max (len + start) 0 else min start len);
          hi = (if fin < 0 then max (len + fin) 0 else min fin len)
      in take (nat (hi - lo)) (drop (nat lo) s))"

text \<open>
  \<^verbatim>\<open>s.split(c)\<close> for a separator of one character: the pieces between the
  occurrences of \<open>c\<close>, in order. The accumulator holds the current piece reversed.
  The empty string splits into one empty piece.
\<close>

fun split_acc :: "char \<Rightarrow> string \<Rightarrow> string \<Rightarrow> string list" where
  "split_acc c acc [] = [rev acc]"
| "split_acc c acc (x # xs) =
     (if x = c then rev acc # split_acc c [] xs else split_acc c (x # acc) xs)"

definition js_split :: "char \<Rightarrow> string \<Rightarrow> string list" where
  "js_split c s = split_acc c [] s"

text \<open>\<^verbatim>\<open>pieces.join(c)\<close>, the inverse of \<open>js_split\<close>; used to say what splitting means.\<close>

fun js_join :: "char \<Rightarrow> string list \<Rightarrow> string" where
  "js_join c [] = []"
| "js_join c [p] = p"
| "js_join c (p # q # ps) = p @ c # js_join c (q # ps)"

text \<open>
  \<^verbatim>\<open>parseInt(s)\<close> with no radix: leading white space is skipped, a sign is read, a
  \<^verbatim>\<open>0x\<close> or \<^verbatim>\<open>0X\<close> prefix selects base 16, and the longest prefix of digits is the
  value. \<open>None\<close> is \<^verbatim>\<open>NaN\<close>: no digit was found. White space is the white space
  of ASCII, and the value is the exact integer.
\<close>

definition is_space :: "char \<Rightarrow> bool" where
  "is_space c = (c \<in> set [CHR 0x09, CHR 0x0A, CHR 0x0B, CHR 0x0C, CHR 0x0D, CHR 0x20])"

definition digit_val :: "nat \<Rightarrow> char \<Rightarrow> nat option" where
  "digit_val radix c =
     (let n = of_char c :: nat;
          v = (if 48 \<le> n \<and> n \<le> 57 then Some (n - 48)
               else if 97 \<le> n \<and> n \<le> 122 then Some (n - 87)
               else if 65 \<le> n \<and> n \<le> 90 then Some (n - 55)
               else None)
      in case v of None \<Rightarrow> None | Some d \<Rightarrow> if d < radix then Some d else None)"

fun digits_acc :: "nat \<Rightarrow> nat option \<Rightarrow> string \<Rightarrow> nat option" where
  "digits_acc radix acc [] = acc"
| "digits_acc radix acc (c # cs) =
     (case digit_val radix c of
        None \<Rightarrow> acc
      | Some d \<Rightarrow> digits_acc radix (Some ((case acc of None \<Rightarrow> 0 | Some a \<Rightarrow> a) * radix + d)) cs)"

definition parseInt :: "string \<Rightarrow> int option" where
  "parseInt s =
     (let t = dropWhile is_space s;
          neg = (case t of c # _ \<Rightarrow> c = CHR ''-'' | [] \<Rightarrow> False);
          u = (case t of c # cs \<Rightarrow> if c = CHR ''+'' \<or> c = CHR ''-'' then cs else t | [] \<Rightarrow> t);
          hex = (case u of a # b # _ \<Rightarrow> a = CHR ''0'' \<and> (b = CHR ''x'' \<or> b = CHR ''X'') | _ \<Rightarrow> False);
          mag = (if hex then digits_acc 16 None (drop 2 u) else digits_acc 10 None u)
      in case mag of None \<Rightarrow> None | Some m \<Rightarrow> Some (if neg then - int m else int m))"

text \<open>
  \<^verbatim>\<open>parseInt(pieces[k])\<close>: an index past the end reads \<^verbatim>\<open>undefined\<close>, which
  \<^verbatim>\<open>parseInt\<close> turns into \<^verbatim>\<open>NaN\<close>.
\<close>

definition parseInt_at :: "string list \<Rightarrow> nat \<Rightarrow> int option" where
  "parseInt_at pieces k = (if k < length pieces then parseInt (pieces ! k) else None)"

text \<open>
  The decimal digits of a number, as a template literal prints them. Every digit is
  printed: the exponent form that JavaScript uses from \<open>10\<^sup>2\<^sup>1\<close> on is not modelled.
\<close>

definition digit_char :: "nat \<Rightarrow> char" where
  "digit_char d = ''0123456789'' ! d"

function show_nat :: "nat \<Rightarrow> string" where
  "show_nat n =
     (if n < 10 then [digit_char n] else show_nat (n div 10) @ [digit_char (n mod 10)])"
  by pat_completeness auto
termination
  by (relation "measure (\<lambda>n. n)") auto

declare show_nat.simps [simp del]


section \<open>The bulk identifier list\<close>

text \<open>
  \<^verbatim>\<open>userRouter.get("/metadata/bulk")\<close>, its first two lines:
  \<^verbatim>\<open>const userIdString = (req.query.ids ?? "[]") as string;\<close>
  \<^verbatim>\<open>const userIds = userIdString.slice(1, userIdString?.length - 1).split(",");\<close>
\<close>

definition userIdString :: "string option \<Rightarrow> string" where
  "userIdString ids = (case ids of None \<Rightarrow> ''[]'' | Some s \<Rightarrow> s)"

definition userIds :: "string option \<Rightarrow> string list" where
  "userIds ids =
     (let s = userIdString ids
      in js_split CHR '','' (js_slice s 1 (int (length s) - 1)))"

section \<open>The stored entities\<close>

text \<open>
  The rows the routes read and write through the storage client. Identifiers are
  strings. A map's placements are read as \<^verbatim>\<open>map.mapElements\<close>; the routes read their
  \<^verbatim>\<open>elementId\<close>, \<^verbatim>\<open>x\<close> and \<^verbatim>\<open>y\<close> only, the coordinates through the non-null
  assertions \<^verbatim>\<open>e.x!\<close> and \<^verbatim>\<open>e.y!\<close>, and \<^verbatim>\<open>adminRouter.post("/map")\<close>, the one route
  that writes them, stores the numbers of the validated payload. Numbers are integers;
  the ranges of the store's columns and its constraints between tables belong to the
  storage schema, which is not part of the routes, and are not modelled: a create call
  appends its row.
\<close>

datatype role = Admin | User

record user_row =
  user_id :: string
  user_username :: string
  user_password :: string
  user_role :: role
  user_avatarId :: "string option"

record avatar_row =
  avatar_id :: string
  avatar_name :: string
  avatar_imageUrl :: string

record element_row =
  element_id :: string
  element_width :: int
  element_height :: int
  element_static :: bool
  element_imageUrl :: string

record mapElement_row =
  me_elementId :: string
  me_x :: int
  me_y :: int

record map_row =
  map_id :: string
  map_name :: string
  map_width :: int
  map_height :: int
  map_thumbnail :: string
  map_mapElements :: "mapElement_row list"

record space_row =
  space_id :: string
  space_name :: string
  space_width :: int
  space_height :: int
  space_thumbnail :: "string option"
  space_creatorId :: string

record spaceElement_row =
  se_id :: string
  se_spaceId :: string
  se_elementId :: string
  se_x :: int
  se_y :: int

text \<open>
  The store: one table per model of the storage client (\<^verbatim>\<open>client.user\<close>,
  \<^verbatim>\<open>client.avatar\<close>, \<^verbatim>\<open>client.element\<close>, \<^verbatim>\<open>client.map\<close>, \<^verbatim>\<open>client.space\<close>,
  \<^verbatim>\<open>client.spaceElements\<close>), each a list of rows in insertion order.
\<close>

record store =
  tbl_user :: "user_row list"
  tbl_avatar :: "avatar_row list"
  tbl_element :: "element_row list"
  tbl_map :: "map_row list"
  tbl_space :: "space_row list"
  tbl_spaceElements :: "spaceElement_row list"

section \<open>Responses\<close>

text \<open>
  A handler answers with a status and a JSON body (\<^verbatim>\<open>res.json\<close> alone is status 200), or
  an awaited call throws and the handler, which catches nothing, sends no response
  (\<open>Unhandled\<close>).
\<close>

datatype body =
    Message string
  | SpaceIdBody string
  | IdBody string
  | AvatarsBody "(string \<times> string option) list"
  | SpaceBody string "(string \<times> element_row \<times> int \<times> int) list"

datatype outcome = Reply nat body | Unhandled

abbreviation ValidationFailed :: outcome where
  "ValidationFailed \<equiv> Reply 400 (Message ''Validation failed'')"

abbreviation MapNotFound :: outcome where
  "MapNotFound \<equiv> Reply 400 (Message ''Map not found'')"

abbreviation SpaceNotFound :: outcome where
  "SpaceNotFound \<equiv> Reply 400 (Message ''Space not found'')"

abbreviation OutOfBounds :: outcome where
  "OutOfBounds \<equiv> Reply 400 (Message ''Point is outside of the boundary'')"

abbreviation Unauthorized :: outcome where
  "Unauthorized \<equiv> Reply 403 (Message ''Unauthorized'')"

section \<open>Bulk user metadata\<close>

text \<open>
  \<^verbatim>\<open>userRouter.get("/metadata/bulk")\<close>. The route has no middleware: the request
  reaches the handler with whatever credentials it carries, and the handler reads
  \<^verbatim>\<open>req.query.ids\<close> only. \<^verbatim>\<open>m.avatar?.imageUrl\<close> is absent for a user with no avatar.
\<close>

record bulk_request =
  rq_authorization :: "string option"
  rq_ids :: "string option"

definition avatar_of :: "store \<Rightarrow> user_row \<Rightarrow> avatar_row option" where
  "avatar_of st m =
     (case user_avatarId m of
        None \<Rightarrow> None
      | Some a \<Rightarrow> find (\<lambda>v. avatar_id v = a) (tbl_avatar st))"

definition GetBulkUserMetadata :: "store \<Rightarrow> bulk_request \<Rightarrow> store \<times> outcome" where
  "GetBulkUserMetadata st req =
     (let ids = userIds (rq_ids req);
          metadata = filter (\<lambda>u. user_id u \<in> set ids) (tbl_user st)
      in (st, Reply 200 (AvatarsBody
            (map (\<lambda>m. (user_id m, map_option avatar_imageUrl (avatar_of st m))) metadata))))"

section \<open>Creating a map\<close>

text \<open>
  \<^verbatim>\<open>adminRouter.post("/map")\<close>, behind the admin middleware. \<open>None\<close> is a payload the
  schema refused. The storage engine assigns the identifiers: \<open>gen k\<close> is the
  identifier of the \<open>k\<close>-th row a request creates. A dimension that \<^verbatim>\<open>parseInt\<close> cannot
  read is no integer the store can hold, and the create call throws.
\<close>

record CreateMapData =
  cm_name :: string
  cm_dimensions :: string
  cm_thumbnail :: string
  cm_defaultElements :: "(string \<times> int \<times> int) list"

definition CreateMap :: "(nat \<Rightarrow> string) \<Rightarrow> store \<Rightarrow> CreateMapData option \<Rightarrow> store \<times> outcome" where
  "CreateMap gen st parsedData =
     (case parsedData of
        None \<Rightarrow> (st, ValidationFailed)
      | Some d \<Rightarrow>
          (case (parseInt_at (js_split CHR ''x'' (cm_dimensions d)) 0,
                 parseInt_at (js_split CHR ''x'' (cm_dimensions d)) 1) of
             (Some w, Some h) \<Rightarrow>
               (let m = \<lparr> map_id = gen 0, map_name = cm_name d, map_width = w, map_height = h,
                          map_thumbnail = cm_thumbnail d,
                          map_mapElements =
                            map (\<lambda>(e, x, y). \<lparr> me_elementId = e, me_x = x, me_y = y \<rparr>)
                              (cm_defaultElements d) \<rparr>
                in (st\<lparr> tbl_map := tbl_map st @ [m] \<rparr>, Reply 200 (IdBody (map_id m))))
           | _ \<Rightarrow> (st, Unhandled)))"

section \<open>Creating a space\<close>

text \<open>
  \<^verbatim>\<open>spaceRouter.post("/")\<close>, behind the user middleware, which supplies \<open>userId\<close>.
  \<^verbatim>\<open>!parsedData.data.mapId\<close> holds for an absent and for an empty \<^verbatim>\<open>mapId\<close>. With a map,
  the space and one placement per map element are created in one transaction.
\<close>

record CreateSpaceData =
  cs_name :: string
  cs_dimensions :: string
  cs_mapId :: "string option"

definition falsy :: "string option \<Rightarrow> bool" where
  "falsy v = (case v of None \<Rightarrow> True | Some s \<Rightarrow> s = [])"

definition CreateSpace ::
  "(nat \<Rightarrow> string) \<Rightarrow> store \<Rightarrow> string \<Rightarrow> CreateSpaceData option \<Rightarrow> store \<times> outcome" where
  "CreateSpace gen st userId parsedData =
     (case parsedData of
        None \<Rightarrow> (st, ValidationFailed)
      | Some d \<Rightarrow>
          if falsy (cs_mapId d) then
            (case (parseInt_at (js_split CHR ''x'' (cs_dimensions d)) 0,
                   parseInt_at (js_split CHR ''x'' (cs_dimensions d)) 1) of
               (Some w, Some h) \<Rightarrow>
                 (let space = \<lparr> space_id = gen 0, space_name = cs_name d, space_width = w,
                                space_height = h, space_thumbnail = None,
                                space_creatorId = userId \<rparr>
                  in (st\<lparr> tbl_space := tbl_space st @ [space] \<rparr>,
                      Reply 200 (SpaceIdBody (space_id space))))
             | _ \<Rightarrow> (st, Unhandled))
          else
            (case find (\<lambda>m. Some (map_id m) = cs_mapId d) (tbl_map st) of
               None \<Rightarrow> (st, MapNotFound)
             | Some m \<Rightarrow>
                 (let space = \<lparr> space_id = gen 0, space_name = cs_name d,
                                space_width = map_width m, space_height = map_height m,
                                space_thumbnail = None, space_creatorId = userId \<rparr>;
                      st1 = st\<lparr> tbl_space := tbl_space st @ [space] \<rparr>;
                      st2 = st1\<lparr> tbl_spaceElements := tbl_spaceElements st1 @
                              map (\<lambda>(k, e). \<lparr> se_id = gen (Suc k), se_spaceId = space_id space,
                                             se_elementId = me_elementId e,
                                             se_x = me_x e, se_y = me_y e \<rparr>)
                                (enumerate 0 (map_mapElements m)) \<rparr>
                  in (st2, Reply 200 (SpaceIdBody (space_id space))))))"

section \<open>Deleting a placement\<close>

text \<open>
  \<^verbatim>\<open>spaceRouter.delete("/element")\<close>. The placement is fetched with its space
  (\<^verbatim>\<open>include: { space: true }\<close>); \<^verbatim>\<open>spaceElement?.space.creatorId\<close> is undefined when no
  placement was found, and reading \<^verbatim>\<open>creatorId\<close> of a space that is not there throws.
  \<^verbatim>\<open>delete\<close> removes the row with the identifier.
\<close>

definition DeleteSpaceElement :: "store \<Rightarrow> string \<Rightarrow> string option \<Rightarrow> store \<times> outcome" where
  "DeleteSpaceElement st userId parsedData =
     (case parsedData of
        None \<Rightarrow> (st, ValidationFailed)
      | Some i \<Rightarrow>
          (case find (\<lambda>e. se_id e = i) (tbl_spaceElements st) of
             None \<Rightarrow> (st, Unauthorized)
           | Some spaceElement \<Rightarrow>
               (case find (\<lambda>s. space_id s = se_spaceId spaceElement) (tbl_space st) of
                  None \<Rightarrow> (st, Unhandled)
                | Some space \<Rightarrow>
                    if space_creatorId space = [] \<or> space_creatorId space \<noteq> userId
                    then (st, Unauthorized)
                    else (st\<lparr> tbl_spaceElements :=
                                filter (\<lambda>e. se_id e \<noteq> i) (tbl_spaceElements st) \<rparr>,
                          Reply 200 (Message ''Element deleted'')))))"

section \<open>Deleting a space\<close>

text \<open>
  Modelled from the spec: the storage schema is not part of the sources, so what
  \<^verbatim>\<open>client.space.delete\<close> does to the placements of the space is taken from the
  specification: the space is deleted and, by referential cascade delegated to the
  store, its SpaceElements.
\<close>

definition space_delete :: "store \<Rightarrow> string \<Rightarrow> store" where
  "space_delete st i =
     st\<lparr> tbl_space := filter (\<lambda>s. space_id s \<noteq> i) (tbl_space st),
         tbl_spaceElements := filter (\<lambda>e. se_spaceId e \<noteq> i) (tbl_spaceElements st) \<rparr>"

text \<open>\<^verbatim>\<open>spaceRouter.delete("/:spaceId")\<close>.\<close>

definition DeleteSpace :: "store \<Rightarrow> string \<Rightarrow> string \<Rightarrow> store \<times> outcome" where
  "DeleteSpace st userId spaceId =
     (case find (\<lambda>s. space_id s = spaceId) (tbl_space st) of
        None \<Rightarrow> (st, SpaceNotFound)
      | Some space \<Rightarrow>
          if space_creatorId space \<noteq> userId then (st, Unauthorized)
          else (space_delete st spaceId, Reply 200 (Message ''Space deleted'')))"

text \<open>The same request sent \<open>n\<close> times: the final store and the responses in order.\<close>

fun repeat_request ::
  "(store \<Rightarrow> store \<times> outcome) \<Rightarrow> nat \<Rightarrow> store \<Rightarrow> store \<times> outcome list" where
  "repeat_request h 0 st = (st, [])"
| "repeat_request h (Suc n) st =
     (case h st of (st1, r) \<Rightarrow>
        (case repeat_request h n st1 of (st2, rs) \<Rightarrow> (st2, r # rs)))"

section \<open>Adding a placement\<close>

text \<open>
  \<^verbatim>\<open>spaceRouter.post("/element")\<close>. The space is looked up by identifier and creator
  together. The bounds are tested before the space is known to exist:
  \<^verbatim>\<open>space?.width!\<close> is undefined for a missing space, and a comparison with undefined
  is false.
\<close>

record AddElementData =
  ae_spaceId :: string
  ae_elementId :: string
  ae_x :: int
  ae_y :: int

definition js_gt :: "int \<Rightarrow> int option \<Rightarrow> bool" where
  "js_gt a b = (case b of None \<Rightarrow> False | Some v \<Rightarrow> a > v)"

definition AddSpaceElement ::
  "(nat \<Rightarrow> string) \<Rightarrow> store \<Rightarrow> string \<Rightarrow> AddElementData option \<Rightarrow> store \<times> outcome" where
  "AddSpaceElement gen st userId parsedData =
     (case parsedData of
        None \<Rightarrow> (st, ValidationFailed)
      | Some d \<Rightarrow>
          (let space = find (\<lambda>s. space_id s = ae_spaceId d \<and> space_creatorId s = userId)
                         (tbl_space st)
           in if ae_x d < 0 \<or> ae_y d < 0 \<or> js_gt (ae_x d) (map_option space_width space)
                   \<or> js_gt (ae_y d) (map_option space_height space)
              then (st, OutOfBounds)
              else (case space of
                      None \<Rightarrow> (st, SpaceNotFound)
                    | Some _ \<Rightarrow>
                        (st\<lparr> tbl_spaceElements := tbl_spaceElements st @
                               [\<lparr> se_id = gen 0, se_spaceId = ae_spaceId d,
                                  se_elementId = ae_elementId d,
                                  se_x = ae_x d, se_y = ae_y d \<rparr>] \<rparr>,
                         Reply 200 (Message ''Element added'')))))"

section \<open>Reading a space\<close>

text \<open>
  \<^verbatim>\<open>spaceRouter.get("/:spaceId")\<close>, with no middleware. \<^verbatim>\<open>space.elements\<close> are the
  placements of the space, each joined with its element (\<^verbatim>\<open>include: { element: true }\<close>);
  the body reads \<^verbatim>\<open>e.element.id\<close> and the other fields of the element, which throws for a
  placement whose element is not in the catalog.
\<close>

definition elements_of :: "store \<Rightarrow> string \<Rightarrow> spaceElement_row list" where
  "elements_of st i = filter (\<lambda>e. se_spaceId e = i) (tbl_spaceElements st)"




text \<open>
  What the join of a read needs: every placement of the space names an element of the
  catalog. No route tests it; \<^verbatim>\<open>spaceRouter.post("/element")\<close> stores the \<^verbatim>\<open>elementId\<close> of
  the request as it is.
\<close>

definition elements_exist :: "store \<Rightarrow> string \<Rightarrow> bool" where
  "elements_exist st i =
     list_all (\<lambda>e. list_ex (\<lambda>el. element_id el = se_elementId e) (tbl_element st))
       (elements_of st i)"

section \<open>Updating an element\<close>

text \<open>
  \<^verbatim>\<open>adminRouter.put("/element/:elementId")\<close>. The handler is not \<^verbatim>\<open>async\<close> and the call
  \<^verbatim>\<open>client.element.update(...)\<close> is not awaited: the handler goes on to
  \<^verbatim>\<open>res.json\<close> with the update only requested. The result is the store at the moment the
  response is sent, the response, and the store calls that were started and not awaited.
\<close>

datatype pending = ElementUpdate string string

definition element_update :: "store \<Rightarrow> string \<Rightarrow> string \<Rightarrow> store" where
  "element_update st i url =
     st\<lparr> tbl_element :=
           map (\<lambda>el. if element_id el = i then el\<lparr> element_imageUrl := url \<rparr> else el)
             (tbl_element st) \<rparr>"

definition UpdateElement ::
  "store \<Rightarrow> string \<Rightarrow> string option \<Rightarrow> store \<times> outcome \<times> pending list" where
  "UpdateElement st elementId parsedData =
     (case parsedData of
        None \<Rightarrow> (st, ValidationFailed, [])
      | Some imageUrl \<Rightarrow>
          (st, Reply 200 (Message ''Element updated''), [ElementUpdate elementId imageUrl]))"

section \<open>A concrete store\<close>

text \<open>
  One user owns one 800 by 600 space with one placement; the catalog has one element
  and there is one map of three placements. Used to run the handlers on concrete inputs.
\<close>

definition demo_element :: element_row where
  "demo_element = \<lparr> element_id = ''e1'', element_width = 1, element_height = 1,
                     element_static = True, element_imageUrl = ''old.png'' \<rparr>"

definition demo_map :: map_row where
  "demo_map = \<lparr> map_id = ''m1'', map_name = ''hall'', map_width = 800, map_height = 600,
                 map_thumbnail = ''hall.png'',
                 map_mapElements =
                   [\<lparr> me_elementId = ''e1'', me_x = 0, me_y = 0 \<rparr>,
                    \<lparr> me_elementId = ''e1'', me_x = 800, me_y = 600 \<rparr>,
                    \<lparr> me_elementId = ''e1'', me_x = 5, me_y = 7 \<rparr>] \<rparr>"

definition demo_space :: space_row where
  "demo_space = \<lparr> space_id = ''s1'', space_name = ''office'', space_width = 800,
                   space_height = 600, space_thumbnail = None, space_creatorId = ''alice'' \<rparr>"

definition demo_placement :: spaceElement_row where
  "demo_placement = \<lparr> se_id = ''p1'', se_spaceId = ''s1'', se_elementId = ''e1'',
                       se_x = 10, se_y = 20 \<rparr>"

definition demo_store :: store where
  "demo_store =
     \<lparr> tbl_user = [\<lparr> user_id = ''alice'', user_username = ''alice'', user_password = ''h'',
                      user_role = User, user_avatarId = None \<rparr>,
                    \<lparr> user_id = ''bob'', user_username = ''bob'', user_password = ''h'',
                      user_role = Admin, user_avatarId = None \<rparr>],
       tbl_avatar = [],
       tbl_element = [demo_element],
       tbl_map = [demo_map],
       tbl_space = [demo_space],
       tbl_spaceElements = [demo_placement] \<rparr>"

text \<open>The identifiers the store hands out in the concrete runs: \<open>n0\<close>, \<open>n1\<close>, ...\<close>

definition demo_gen :: "nat \<Rightarrow> string" where
  "demo_gen k = CHR ''n'' # show_nat k"

section \<open>Facts about the string operations\<close>

lemma js_slice_inner: "js_slice s 1 (int (length s) - 1) = butlast (tl s)"
proof (cases s)
  case Nil
  then show ?thesis by (simp add: js_slice_def)
next
  case (Cons a t)
  have "nat (int (length t) - 1) = length t - 1"
    by arith
  then have "take (nat (int (length t) - 1)) t = butlast t"
    by (simp add: butlast_conv_take)
  with Cons show ?thesis
    by (simp add: js_slice_def Let_def)
qed

lemma split_acc_nonempty: "split_acc c acc s \<noteq> []"
  by (induction s arbitrary: acc) auto

lemma js_join_Cons: "ps \<noteq> [] \<Longrightarrow> js_join c (p # ps) = p @ c # js_join c ps"
  by (cases ps) auto

lemma js_join_split_acc: "js_join c (split_acc c acc s) = rev acc @ s"
proof (induction s arbitrary: acc)
  case Nil
  show ?case by simp
next
  case (Cons x xs)
  show ?case
  proof (cases "x = c")
    case True
    then show ?thesis
      by (simp add: js_join_Cons split_acc_nonempty Cons.IH)
  next
    case False
    then show ?thesis by (simp add: Cons.IH)
  qed
qed

lemma split_acc_pieces:
  "c \<notin> set acc \<Longrightarrow> p \<in> set (split_acc c acc s) \<Longrightarrow> c \<notin> set p"
proof (induction s arbitrary: acc)
  case Nil
  then show ?case by simp
next
  case (Cons x xs)
  show ?case
  proof (cases "x = c")
    case True
    with Cons.prems have "p = rev acc \<or> p \<in> set (split_acc c [] xs)" by simp
    then show ?thesis
    proof
      assume "p = rev acc"
      with Cons.prems(1) show ?thesis by simp
    next
      assume "p \<in> set (split_acc c [] xs)"
      then show ?thesis using Cons.IH [of "[]"] by simp
    qed
  next
    case False
    with Cons.prems have "p \<in> set (split_acc c (x # acc) xs)" by simp
    moreover from False Cons.prems(1) have "c \<notin> set (x # acc)" by auto
    ultimately show ?thesis using Cons.IH by blast
  qed
qed

lemma js_join_split: "js_join c (js_split c s) = s"
  by (simp add: js_split_def js_join_split_acc)

lemma js_split_pieces: "list_all (\<lambda>p. c \<notin> set p) (js_split c s)"
  unfolding list_all_iff js_split_def
  using split_acc_pieces [of c "[]"] by auto

section \<open>Facts about lookups and tables\<close>

lemma find_append_case:
  "find P (xs @ ys) = (case find P xs of None \<Rightarrow> find P ys | Some x \<Rightarrow> Some x)"
  by (induction xs) auto

lemma find_fresh: "i \<notin> set (map f xs) \<Longrightarrow> find (\<lambda>s. f s = i) xs = None"
  by (induction xs) auto

lemma filter_fresh: "i \<notin> set (map f xs) \<Longrightarrow> filter (\<lambda>s. f s = i) xs = []"
  by (induction xs) auto

lemma map_enumerate_snd: "map (\<lambda>(k, e). f e) (enumerate n xs) = map f xs"
  by (induction xs arbitrary: n) auto

lemma filter_copied:
  "filter (\<lambda>e. se_spaceId e = i)
     (map (\<lambda>(k, e). \<lparr> se_id = g k, se_spaceId = i, se_elementId = me_elementId e,
                      se_x = me_x e, se_y = me_y e \<rparr>) kes) =
   map (\<lambda>(k, e). \<lparr> se_id = g k, se_spaceId = i, se_elementId = me_elementId e,
                      se_x = me_x e, se_y = me_y e \<rparr>) kes"
  by (induction kes) auto

lemma find_filter_neq: "find (\<lambda>e. f e = i) (filter (\<lambda>e. f e \<noteq> i) xs) = None"
  by (induction xs) auto






section \<open>Creating a space from a map\<close>

text \<open>
  Claim C1. Let the map \<open>m\<close> be the one the store finds for \<open>mapId\<close>, and let the
  identifier the store gives the new space be new: no space and no placement of the
  store carries it (identifiers the store assigns are never empty). Then
  \<^verbatim>\<open>spaceRouter.post("/")\<close> answers with this identifier, the space found under it has the
  width and the height of the map, and the placements of this space are as many as the
  map's elements and, in the map's order, carry the new space's identifier and the
  \<open>elementId\<close>, \<open>x\<close> and \<open>y\<close> of one map element each.
\<close>

theorem CreateSpace_copies_map:
  assumes "mapId \<noteq> []"
    and "find (\<lambda>m. map_id m = mapId) (tbl_map st) = Some m"
    and "gen 0 \<notin> set (map space_id (tbl_space st))"
    and "gen 0 \<notin> set (map se_spaceId (tbl_spaceElements st))"
  shows "let st' = fst (CreateSpace gen st userId
                (Some \<lparr> cs_name = name, cs_dimensions = dims, cs_mapId = Some mapId \<rparr>))
    in snd (CreateSpace gen st userId
          (Some \<lparr> cs_name = name, cs_dimensions = dims, cs_mapId = Some mapId \<rparr>))
          = Reply 200 (SpaceIdBody (gen 0))
     \<and> find (\<lambda>s. space_id s = gen 0) (tbl_space st')
          = Some \<lparr> space_id = gen 0, space_name = name, space_width = map_width m,
                   space_height = map_height m, space_thumbnail = None,
                   space_creatorId = userId \<rparr>
     \<and> length (elements_of st' (gen 0)) = length (map_mapElements m)
     \<and> map (\<lambda>e. (se_spaceId e, se_elementId e, se_x e, se_y e)) (elements_of st' (gen 0))
          = map (\<lambda>e. (gen 0, me_elementId e, me_x e, me_y e)) (map_mapElements m)"
proof -
  define space where "space = \<lparr> space_id = gen 0, space_name = name,
      space_width = map_width m, space_height = map_height m,
      space_thumbnail = None, space_creatorId = userId \<rparr>"
  define rows where "rows = map (\<lambda>(k, e). \<lparr> se_id = gen (Suc k), se_spaceId = gen 0,
      se_elementId = me_elementId e, se_x = me_x e, se_y = me_y e \<rparr>)
      (enumerate 0 (map_mapElements m))"
  define st' where "st' = st\<lparr> tbl_space := tbl_space st @ [space],
      tbl_spaceElements := tbl_spaceElements st @ rows \<rparr>"
  have run: "CreateSpace gen st userId
        (Some \<lparr> cs_name = name, cs_dimensions = dims, cs_mapId = Some mapId \<rparr>)
        = (st', Reply 200 (SpaceIdBody (gen 0)))"
    using assms(1,2) by (simp add: CreateSpace_def falsy_def st'_def space_def rows_def)
  have found: "find (\<lambda>s. space_id s = gen 0) (tbl_space st') = Some space"
    using assms(3) by (simp add: st'_def find_append_case find_fresh space_def)
  have els: "elements_of st' (gen 0) = rows"
    using assms(4) by (simp add: elements_of_def st'_def filter_fresh rows_def filter_copied)
  have len: "length rows = length (map_mapElements m)"
    by (simp add: rows_def)
  have proj: "map (\<lambda>e. (se_spaceId e, se_elementId e, se_x e, se_y e)) rows
        = map (\<lambda>e. (gen 0, me_elementId e, me_x e, me_y e)) (map_mapElements m)"
    unfolding rows_def map_map
    using map_enumerate_snd [of "\<lambda>e. (gen 0, me_elementId e, me_x e, me_y e)" 0 "map_mapElements m"]
    by (simp add: comp_def case_prod_unfold)
  from found els len proj show ?thesis
    unfolding run Let_def fst_conv snd_conv space_def by simp
qed

theorem CreateSpace_copies_map_witness:
  "''m1'' \<noteq> []
   \<and> find (\<lambda>m. map_id m = ''m1'') (tbl_map demo_store) = Some demo_map
   \<and> demo_gen 0 \<notin> set (map space_id (tbl_space demo_store))
   \<and> demo_gen 0 \<notin> set (map se_spaceId (tbl_spaceElements demo_store))
   \<and> snd (CreateSpace demo_gen demo_store ''alice''
          (Some \<lparr> cs_name = ''copy'', cs_dimensions = ''1x1'', cs_mapId = Some ''m1'' \<rparr>))
        = Reply 200 (SpaceIdBody ''n0'')
   \<and> find (\<lambda>s. space_id s = ''n0'')
        (tbl_space (fst (CreateSpace demo_gen demo_store ''alice''
          (Some \<lparr> cs_name = ''copy'', cs_dimensions = ''1x1'', cs_mapId = Some ''m1'' \<rparr>))))
        = Some \<lparr> space_id = ''n0'', space_name = ''copy'', space_width = 800,
                 space_height = 600, space_thumbnail = None, space_creatorId = ''alice'' \<rparr>
   \<and> map (\<lambda>e. (se_spaceId e, se_elementId e, se_x e, se_y e))
        (elements_of (fst (CreateSpace demo_gen demo_store ''alice''
          (Some \<lparr> cs_name = ''copy'', cs_dimensions = ''1x1'', cs_mapId = Some ''m1'' \<rparr>))) ''n0'')
        = [(''n0'', ''e1'', 0, 0), (''n0'', ''e1'', 800, 600), (''n0'', ''e1'', 5, 7)]"
proof -
  have h1: "''m1'' \<noteq> []" by simp
  have h2: "find (\<lambda>m. map_id m = ''m1'') (tbl_map demo_store) = Some demo_map"
    by (simp add: demo_store_def demo_map_def)
  have h3: "demo_gen 0 \<notin> set (map space_id (tbl_space demo_store))"
    by (simp add: demo_store_def demo_space_def demo_gen_def)
  have h4: "demo_gen 0 \<notin> set (map se_spaceId (tbl_spaceElements demo_store))"
    by (simp add: demo_store_def demo_placement_def demo_gen_def)
  have m: "map_width demo_map = 800" "map_height demo_map = 600"
    "map_mapElements demo_map = [\<lparr> me_elementId = ''e1'', me_x = 0, me_y = 0 \<rparr>,
                    \<lparr> me_elementId = ''e1'', me_x = 800, me_y = 600 \<rparr>,
                    \<lparr> me_elementId = ''e1'', me_x = 5, me_y = 7 \<rparr>]"
    by (simp_all add: demo_map_def)
  have g: "demo_gen 0 = ''n0''"
    by (simp add: demo_gen_def show_nat.simps digit_char_def)
  show ?thesis
    using h1 h2 h3 h4
      CreateSpace_copies_map [where gen = demo_gen and userId = "''alice''"
        and name = "''copy''" and dims = "''1x1''", OF h1 h2 h3 h4]
    by (simp add: m g Let_def)
qed

section \<open>Adding a placement to an owned space\<close>




text \<open>
  A placement of a catalog element keeps every space readable that was readable before.
\<close>

lemma AddSpaceElement_keeps_elements_exist:
  assumes "elements_exist st i"
    and "list_ex (\<lambda>el. element_id el = ae_elementId d) (tbl_element st)"
  shows "elements_exist (fst (AddSpaceElement gen st actor (Some d))) i"
  using assms
  by (auto simp: AddSpaceElement_def elements_exist_def elements_of_def Let_def list_all_iff
      split: option.splits)

section \<open>Placements and the bounds of their space\<close>

text \<open>
  A placement that \<^verbatim>\<open>spaceRouter.post("/element")\<close> creates lies within its space.
\<close>

lemma AddSpaceElement_creates_in_bounds:
  assumes "snd (AddSpaceElement gen st actor (Some d)) = Reply 200 (Message ''Element added'')"
  shows "\<exists>space. find (\<lambda>s. space_id s = ae_spaceId d \<and> space_creatorId s = actor) (tbl_space st)
        = Some space
      \<and> 0 \<le> ae_x d \<and> ae_x d \<le> space_width space
      \<and> 0 \<le> ae_y d \<and> ae_y d \<le> space_height space
      \<and> tbl_spaceElements (fst (AddSpaceElement gen st actor (Some d)))
          = tbl_spaceElements st @
              [\<lparr> se_id = gen 0, se_spaceId = ae_spaceId d, se_elementId = ae_elementId d,
                 se_x = ae_x d, se_y = ae_y d \<rparr>]"
  using assms
  by (auto simp: AddSpaceElement_def js_gt_def Let_def split: if_splits option.splits)

text \<open>
  Claim C3. The bounds are not kept by the other way a placement is created.
  \<^verbatim>\<open>adminRouter.post("/map")\<close> stores a 100 by 200 map with one element at \<open>(500, -1)\<close>
  without comparing the point with the dimensions, and \<^verbatim>\<open>spaceRouter.post("/")\<close> copies
  it: the new 100 by 200 space holds a placement at \<open>(500, -1)\<close>.
\<close>

theorem template_copy_outside_bounds:
  "let st1 = fst (CreateMap (\<lambda>k. ''m2'') demo_store
                (Some \<lparr> cm_name = ''wide'', cm_dimensions = ''100x200'',
                        cm_thumbnail = ''wide.png'',
                        cm_defaultElements = [(''e1'', 500, -1)] \<rparr>));
       st2 = fst (CreateSpace demo_gen st1 ''alice''
                (Some \<lparr> cs_name = ''copy'', cs_dimensions = ''100x200'',
                        cs_mapId = Some ''m2'' \<rparr>))
   in tbl_map st1 = [demo_map,
        \<lparr> map_id = ''m2'', map_name = ''wide'', map_width = 100, map_height = 200,
          map_thumbnail = ''wide.png'',
          map_mapElements = [\<lparr> me_elementId = ''e1'', me_x = 500, me_y = -1 \<rparr>] \<rparr>]
    \<and> tbl_space st2 = [demo_space,
        \<lparr> space_id = ''n0'', space_name = ''copy'', space_width = 100, space_height = 200,
          space_thumbnail = None, space_creatorId = ''alice'' \<rparr>]
    \<and> tbl_spaceElements st2 = [demo_placement,
        \<lparr> se_id = ''n1'', se_spaceId = ''n0'', se_elementId = ''e1'',
          se_x = 500, se_y = -1 \<rparr>]"
  by (simp add: CreateMap_def CreateSpace_def falsy_def demo_store_def demo_map_def
      demo_gen_def show_nat.simps digit_char_def parseInt_at_def js_split_def parseInt_def
      is_space_def digit_val_def Let_def)

section \<open>Adding a placement to a space that is not found\<close>

text \<open>
  When the lookup by identifier and creator finds nothing, nothing is stored; the answer
  is that the point is outside of the boundary for a negative coordinate, and that the
  space was not found otherwise.
\<close>

lemma AddSpaceElement_missing_space:
  assumes "find (\<lambda>s. space_id s = ae_spaceId d \<and> space_creatorId s = actor) (tbl_space st) = None"
  shows "AddSpaceElement gen st actor (Some d)
      = (st, if ae_x d < 0 \<or> ae_y d < 0 then OutOfBounds else SpaceNotFound)"
  using assms by (simp add: AddSpaceElement_def js_gt_def)

text \<open>
  Claim C4. For a space identifier that resolves to nothing and the point \<open>(-1, 0)\<close>,
  \<^verbatim>\<open>spaceRouter.post("/element")\<close> answers that the point is outside of the boundary,
  not that the space was not found; for \<open>(1, 0)\<close> it answers that the space was not found.
  The store is unchanged in both runs.
\<close>

theorem AddSpaceElement_missing_space_negative:
  "find (\<lambda>s. space_id s = ''nowhere'') (tbl_space demo_store) = None
   \<and> AddSpaceElement demo_gen demo_store ''alice''
        (Some \<lparr> ae_spaceId = ''nowhere'', ae_elementId = ''e1'', ae_x = -1, ae_y = 0 \<rparr>)
       = (demo_store, Reply 400 (Message ''Point is outside of the boundary''))
   \<and> AddSpaceElement demo_gen demo_store ''alice''
        (Some \<lparr> ae_spaceId = ''nowhere'', ae_elementId = ''e1'', ae_x = 1, ae_y = 0 \<rparr>)
       = (demo_store, Reply 400 (Message ''Space not found''))"
  by (simp add: AddSpaceElement_def js_gt_def demo_store_def demo_space_def)

section \<open>Deleting a placement twice\<close>

text \<open>
  Claim C5, as the handler has it. When the owner deletes a placement twice, the first
  call answers that the element was deleted and the placement is gone from the store; the
  second call answers \<open>Unauthorized\<close> (status 403), the answer the handler gives for a
  placement it does not find, and leaves the store as it is: there is no second
  successful delete.
\<close>

theorem DeleteSpaceElement_twice:
  assumes "find (\<lambda>e. se_id e = i) (tbl_spaceElements st) = Some e"
    and "find (\<lambda>s. space_id s = se_spaceId e) (tbl_space st) = Some space"
    and "space_creatorId space = actor"
    and "actor \<noteq> []"
  shows "let st' = fst (DeleteSpaceElement st actor (Some i))
    in snd (DeleteSpaceElement st actor (Some i)) = Reply 200 (Message ''Element deleted'')
     \<and> find (\<lambda>e. se_id e = i) (tbl_spaceElements st') = None
     \<and> DeleteSpaceElement st' actor (Some i) = (st', Unauthorized)"
proof -
  define st' where "st' = st\<lparr> tbl_spaceElements :=
      filter (\<lambda>e. se_id e \<noteq> i) (tbl_spaceElements st) \<rparr>"
  have first: "DeleteSpaceElement st actor (Some i) = (st', Reply 200 (Message ''Element deleted''))"
    using assms by (simp add: DeleteSpaceElement_def st'_def)
  have gone: "find (\<lambda>e. se_id e = i) (tbl_spaceElements st') = None"
    by (simp add: st'_def find_filter_neq)
  then have second: "DeleteSpaceElement st' actor (Some i) = (st', Unauthorized)"
    by (simp add: DeleteSpaceElement_def)
  from gone second show ?thesis
    unfolding first Let_def fst_conv snd_conv by simp
qed

theorem DeleteSpaceElement_twice_witness:
  "find (\<lambda>e. se_id e = ''p1'') (tbl_spaceElements demo_store) = Some demo_placement
   \<and> find (\<lambda>s. space_id s = se_spaceId demo_placement) (tbl_space demo_store) = Some demo_space
   \<and> space_creatorId demo_space = ''alice'' \<and> ''alice'' \<noteq> []
   \<and> snd (DeleteSpaceElement demo_store ''alice'' (Some ''p1''))
       = Reply 200 (Message ''Element deleted'')
   \<and> find (\<lambda>e. se_id e = ''p1'')
       (tbl_spaceElements (fst (DeleteSpaceElement demo_store ''alice'' (Some ''p1'')))) = None
   \<and> snd (DeleteSpaceElement (fst (DeleteSpaceElement demo_store ''alice'' (Some ''p1'')))
        ''alice'' (Some ''p1'')) = Unauthorized"
proof -
  have h1: "find (\<lambda>e. se_id e = ''p1'') (tbl_spaceElements demo_store) = Some demo_placement"
    by (simp add: demo_store_def demo_placement_def)
  have h2: "find (\<lambda>s. space_id s = se_spaceId demo_placement) (tbl_space demo_store)
      = Some demo_space"
    by (simp add: demo_store_def demo_placement_def demo_space_def)
  have h3: "space_creatorId demo_space = ''alice''"
    by (simp add: demo_space_def)
  have h4: "''alice'' \<noteq> []" by simp
  show ?thesis
    using h1 h2 h3 h4 DeleteSpaceElement_twice [OF h1 h2 h3 h4]
    by (simp add: Let_def)
qed

text \<open>
  The run that refutes C5 as stated: the second delete of placement \<open>p1\<close> by its owner
  is answered with status 403 and the message Unauthorized.
\<close>

theorem DeleteSpaceElement_second_call_unauthorized:
  "snd (DeleteSpaceElement demo_store ''alice'' (Some ''p1''))
     = Reply 200 (Message ''Element deleted'')
   \<and> tbl_spaceElements (fst (DeleteSpaceElement demo_store ''alice'' (Some ''p1''))) = []
   \<and> snd (DeleteSpaceElement (fst (DeleteSpaceElement demo_store ''alice'' (Some ''p1'')))
        ''alice'' (Some ''p1'')) = Reply 403 (Message ''Unauthorized'')"
  by (simp add: DeleteSpaceElement_def demo_store_def demo_placement_def demo_space_def)

section \<open>Deleting another user's space\<close>

text \<open>
  Claim C6. When the space found for \<open>spaceId\<close> belongs to \<open>a\<close> and the acting user
  \<open>b\<close> is another one, \<^verbatim>\<open>spaceRouter.delete("/:spaceId")\<close> answers \<open>Unauthorized\<close> and
  returns the store unchanged, and so does every one of \<open>n\<close> repetitions of the request.
\<close>

theorem DeleteSpace_by_other_actor:
  assumes "find (\<lambda>s. space_id s = spaceId) (tbl_space st) = Some space"
    and "space_creatorId space = a"
    and "b \<noteq> a"
  shows "DeleteSpace st b spaceId = (st, Unauthorized)
    \<and> repeat_request (\<lambda>s. DeleteSpace s b spaceId) n st = (st, replicate n Unauthorized)"
proof -
  have one: "DeleteSpace st b spaceId = (st, Unauthorized)"
    using assms by (auto simp: DeleteSpace_def)
  have "repeat_request (\<lambda>s. DeleteSpace s b spaceId) n st = (st, replicate n Unauthorized)"
    by (induction n) (simp_all add: one)
  with one show ?thesis by simp
qed

theorem DeleteSpace_by_other_actor_witness:
  "find (\<lambda>s. space_id s = ''s1'') (tbl_space demo_store) = Some demo_space
   \<and> space_creatorId demo_space = ''alice'' \<and> ''bob'' \<noteq> ''alice''
   \<and> DeleteSpace demo_store ''bob'' ''s1'' = (demo_store, Unauthorized)
   \<and> repeat_request (\<lambda>s. DeleteSpace s ''bob'' ''s1'') 3 demo_store
       = (demo_store, [Unauthorized, Unauthorized, Unauthorized])"
proof -
  have h1: "find (\<lambda>s. space_id s = ''s1'') (tbl_space demo_store) = Some demo_space"
    by (simp add: demo_store_def demo_space_def)
  have h2: "space_creatorId demo_space = ''alice''"
    by (simp add: demo_space_def)
  have h3: "''bob'' \<noteq> ''alice''" by simp
  show ?thesis
    using h1 h2 h3 DeleteSpace_by_other_actor [OF h1 h2 h3, of 3]
    by (simp add: numeral_3_eq_3)
qed

section \<open>Creating a space from an unknown map\<close>

text \<open>
  Claim C7, as the handler has it. For a \<open>mapId\<close> that is not empty and that the store
  finds no map for, \<^verbatim>\<open>spaceRouter.post("/")\<close> answers that the map was not found and
  returns the store unchanged: no space and no placement is created.
\<close>

theorem CreateSpace_unknown_map:
  assumes "mapId \<noteq> []"
    and "find (\<lambda>m. map_id m = mapId) (tbl_map st) = None"
  shows "CreateSpace gen st userId
        (Some \<lparr> cs_name = name, cs_dimensions = dims, cs_mapId = Some mapId \<rparr>)
        = (st, MapNotFound)"
  using assms by (simp add: CreateSpace_def falsy_def)

theorem CreateSpace_unknown_map_witness:
  "''zz'' \<noteq> [] \<and> find (\<lambda>m. map_id m = ''zz'') (tbl_map demo_store) = None
   \<and> CreateSpace demo_gen demo_store ''alice''
        (Some \<lparr> cs_name = ''copy'', cs_dimensions = ''800x600'', cs_mapId = Some ''zz'' \<rparr>)
        = (demo_store, MapNotFound)"
proof -
  have h1: "''zz'' \<noteq> []" by simp
  have h2: "find (\<lambda>m. map_id m = ''zz'') (tbl_map demo_store) = None"
    by (simp add: demo_store_def demo_map_def)
  show ?thesis
    using h1 h2 CreateSpace_unknown_map [OF h1 h2, of demo_gen "''alice''" "''copy''" "''800x600''"]
    by simp
qed

text \<open>
  The run that refutes C7 as stated: the empty \<open>mapId\<close> resolves to no map, and the
  handler, for which an empty \<open>mapId\<close> is an absent one, creates an 800 by 600 space
  from the dimensions.
\<close>

theorem CreateSpace_empty_mapId_creates:
  "find (\<lambda>m. map_id m = '''') (tbl_map demo_store) = None
   \<and> CreateSpace demo_gen demo_store ''alice''
        (Some \<lparr> cs_name = ''copy'', cs_dimensions = ''800x600'', cs_mapId = Some '''' \<rparr>)
      = (demo_store\<lparr> tbl_space := [demo_space,
            \<lparr> space_id = ''n0'', space_name = ''copy'', space_width = 800, space_height = 600,
              space_thumbnail = None, space_creatorId = ''alice'' \<rparr>] \<rparr>,
         Reply 200 (SpaceIdBody ''n0''))"
  by (simp add: CreateSpace_def falsy_def demo_store_def demo_map_def demo_gen_def
      show_nat.simps digit_char_def parseInt_at_def js_split_def parseInt_def is_space_def digit_val_def)

section \<open>The bulk identifier normalizer\<close>

text \<open>
  Claim C8. The identifier list of \<^verbatim>\<open>/metadata/bulk\<close> is the raw string without its
  first and its last character, split on the comma: for every raw string the result is
  the split of \<open>butlast (tl raw)\<close>, so a string \<open>a # mid @ [z]\<close> yields the split of
  \<open>mid\<close>. Splitting is characterised by two facts: joining the pieces with commas gives
  the string back, and no piece holds a comma. \<^verbatim>\<open>[id1,id2,id3]\<close> yields \<open>id1\<close>, \<open>id2\<close>,
  \<open>id3\<close> in this order; \<^verbatim>\<open>[]\<close>, which is also the default of an absent parameter,
  yields exactly one empty string.
\<close>

theorem userIds_strips_and_splits:
  "userIds (Some raw) = js_split CHR '','' (butlast (tl raw))
   \<and> userIds (Some (a # mid @ [z])) = js_split CHR '','' mid
   \<and> js_join CHR '','' (js_split CHR '','' mid) = mid
   \<and> list_all (\<lambda>p. CHR '','' \<notin> set p) (js_split CHR '','' mid)
   \<and> userIds (Some ''[id1,id2,id3]'') = [''id1'', ''id2'', ''id3'']
   \<and> userIds (Some ''[]'') = ['''']
   \<and> userIds None = ['''']"
proof -
  have strip: "userIds (Some s) = js_split CHR '','' (butlast (tl s))" for s
    by (simp add: userIds_def userIdString_def js_slice_inner)
  have "userIds None = userIds (Some ''[]'')"
    by (simp add: userIds_def userIdString_def)
  moreover have "js_split CHR '','' [] = ['''']"
    by (simp add: js_split_def)
  moreover have "js_split CHR '','' ''id1,id2,id3'' = [''id1'', ''id2'', ''id3'']"
    by (simp add: js_split_def)
  ultimately show ?thesis
    by (simp add: strip js_join_split js_split_pieces butlast_append)
qed

section \<open>Updating an element\<close>

text \<open>
  Claim C9. \<^verbatim>\<open>adminRouter.put("/element/:elementId")\<close> acknowledges with the update only
  started: at the response the element \<open>e1\<close> still has its old image, which the update,
  once it runs, would replace; and an update of an element that does not exist is
  acknowledged in the same way.
\<close>

theorem UpdateElement_acknowledges_before_update:
  "UpdateElement demo_store ''e1'' (Some ''new.png'')
     = (demo_store, Reply 200 (Message ''Element updated''), [ElementUpdate ''e1'' ''new.png''])
   \<and> map element_imageUrl (tbl_element demo_store) = [''old.png'']
   \<and> map element_imageUrl (tbl_element (element_update demo_store ''e1'' ''new.png''))
       = [''new.png'']
   \<and> UpdateElement demo_store ''missing'' (Some ''new.png'')
     = (demo_store, Reply 200 (Message ''Element updated''),
        [ElementUpdate ''missing'' ''new.png''])"
  by (simp add: UpdateElement_def element_update_def demo_store_def demo_element_def)

section \<open>Bulk metadata and the caller\<close>

text \<open>
  Claim C10. \<^verbatim>\<open>/metadata/bulk\<close> checks no credentials and answers from the store and the
  raw \<^verbatim>\<open>ids\<close> string alone: two requests that differ in their credentials only get the
  same answer, every request gets the answer of the anonymous request with the same
  \<^verbatim>\<open>ids\<close>, the answer is always the status 200 with the users of the store whose
  identifier is in the parsed list, each with the image of its avatar, and the store is
  left as it was.
\<close>

theorem GetBulkUserMetadata_ignores_caller:
  "GetBulkUserMetadata st (req\<lparr> rq_authorization := a \<rparr>) =
     GetBulkUserMetadata st (req\<lparr> rq_authorization := b \<rparr>)
   \<and> GetBulkUserMetadata st req =
     GetBulkUserMetadata st \<lparr> rq_authorization = None, rq_ids = rq_ids req \<rparr>
   \<and> snd (GetBulkUserMetadata st req) =
     Reply 200 (AvatarsBody
       (map (\<lambda>m. (user_id m, map_option avatar_imageUrl (avatar_of st m)))
          (filter (\<lambda>u. user_id u \<in> set (userIds (rq_ids req))) (tbl_user st))))
   \<and> fst (GetBulkUserMetadata st req) = st"
  by (simp add: GetBulkUserMetadata_def Let_def)

end
